theory Spec2Isabelle
  imports Complex_Main
begin

section \<open>FastShop order service: data model\<close>

text \<open>
  The development embeds the route handlers of \<^verbatim>\<open>src/order-service/src/index.js\<close>
  (\<^verbatim>\<open>POST /api/orders\<close>, \<^verbatim>\<open>PUT /api/orders/:id/status\<close> and the two
  \<^verbatim>\<open>GET\<close> routes), the single read endpoint of the product service they call, and the
  two tables of \<^verbatim>\<open>initDatabase\<close>.

  Conventions of the embedding.
  \<^item> Money is counted in hundredths: a \<^verbatim>\<open>DECIMAL(10, 2)\<close> column holds an \<open>int\<close>
    (\<open>2999\<close> is 29.99).
  \<^item> A JavaScript number of the request body is a \<open>rat\<close>; the floating-point arithmetic of
    \<^verbatim>\<open>product.price * item.quantity\<close> and \<^verbatim>\<open>total += itemTotal\<close> is taken exact.
  \<^item> Request bodies are well typed: a field is absent (\<open>None\<close>) or has the type the handler
    expects; path parameters are numbers.
  \<^item> The database is reachable: \<^verbatim>\<open>pool.connect\<close> and every statement succeed unless a
    value does not fit the kind of its column. Column widths (\<^verbatim>\<open>VARCHAR(255)\<close>, ten
    digits, 32 bits) are not modelled.
  \<^item> \<^verbatim>\<open>CURRENT_TIMESTAMP\<close> is the parameter \<open>now\<close> of a handler.
  \<^item> The catalog is the parameter \<open>catalog\<close>: what the product service does with a
    lookup of each product id while the request runs.
  \<^item> A handler returns its response, the database it leaves, and the effects it issued, in
    order. A handler that never answers returns \<open>None\<close>.
\<close>

subsection \<open>Product service\<close>

text \<open>A row of \<^verbatim>\<open>products\<close> as far as the order service reads it: id, name, price.\<close>

record product =
  prod_id :: int
  prod_name :: string
  prod_price :: int

text \<open>The envelope \<^verbatim>\<open>{success, data}\<close> of the product service.\<close>

record envelope =
  success :: bool
  data :: "product option"

text \<open>
  What the product service does with one \<^verbatim>\<open>GET /api/products/<id>\<close>: it answers with a
  status and a body, the connection fails, or it accepts the request and never answers.
\<close>

datatype catalog_behaviour = Http nat envelope | Unreachable | Silent

text \<open>
  \<^verbatim>\<open>app.get('/api/products/:id')\<close> of the product service over its rows: 404 with
  \<^verbatim>\<open>success: false\<close> when no row has the id, 200 with the row otherwise.
\<close>

definition get_api_products_id :: "product list \<Rightarrow> int \<Rightarrow> catalog_behaviour" where
  "get_api_products_id rows pid =
     (case filter (\<lambda>p. prod_id p = pid) rows of
        [] \<Rightarrow> Http 404 \<lparr>success = False, data = None\<rparr>
      | p # _ \<Rightarrow> Http 200 \<lparr>success = True, data = Some p\<rparr>)"

text \<open>
  \<^verbatim>\<open>axios.get(url, {timeout})\<close>. The promise rejects for a status outside 200..299
  (the default \<^verbatim>\<open>validateStatus\<close>), for a transport failure, and after \<open>timeout\<close>
  milliseconds when the server stays silent. A timeout of 0, the default when the caller
  passes no configuration, means none: the promise then never settles.
\<close>

datatype axios_error = Bad_Status nat | No_Connection | Timed_Out

fun axios_get :: "nat \<Rightarrow> catalog_behaviour \<Rightarrow> (axios_error + envelope) option" where
  "axios_get timeout (Http st body) =
     Some (if 200 \<le> st \<and> st < 300 then Inr body else Inl (Bad_Status st))"
| "axios_get timeout Unreachable = Some (Inl No_Connection)"
| "axios_get timeout Silent = (if timeout = 0 then None else Some (Inl Timed_Out))"

text \<open>
  The health probe of \<^verbatim>\<open>src/api-gateway/index.js\<close>:
  \<^verbatim>\<open>try { await axios.get(url, { timeout: 3000 }); 'healthy' } catch { 'unhealthy' }\<close>.
\<close>

definition gateway_health_probe :: "catalog_behaviour \<Rightarrow> string option" where
  "gateway_health_probe b =
     (case axios_get 3000 b of
        None \<Rightarrow> None
      | Some (Inl e) \<Rightarrow> Some ''unhealthy''
      | Some (Inr body) \<Rightarrow> Some ''healthy'')"

subsection \<open>Order store\<close>

text \<open>The tables \<^verbatim>\<open>orders\<close> and \<^verbatim>\<open>order_items\<close> of \<^verbatim>\<open>initDatabase\<close>.\<close>

record order_row =
  order_id :: nat
  order_customer_name :: string
  order_customer_email :: string
  order_status :: string
  total_amount :: int
  order_created_at :: nat
  order_updated_at :: nat

record order_item_row =
  item_id :: nat
  item_order_id :: nat
  item_product_id :: int
  item_product_name :: string
  item_quantity :: int
  item_price :: int
  item_created_at :: nat

text \<open>
  The rows in insertion order, and the two \<^verbatim>\<open>SERIAL\<close> sequences (the last value
  each has handed out).
\<close>

record db =
  orders :: "order_row list"
  order_items :: "order_item_row list"
  orders_id_seq :: nat
  order_items_id_seq :: nat

text \<open>
  A number bound to a \<^verbatim>\<open>DECIMAL(10, 2)\<close> parameter is rounded to hundredths, half
  away from zero. The argument is already in hundredths.
\<close>

definition decimal_2 :: "rat \<Rightarrow> int" where
  "decimal_2 x = (if 0 \<le> x then \<lfloor>x + 1 / 2\<rfloor> else - \<lfloor>- x + 1 / 2\<rfloor>)"

text \<open>
  A number bound to an \<^verbatim>\<open>INTEGER\<close> parameter: the driver sends its decimal text, and
  the server refuses text that is not an integer (\<open>None\<close>).
\<close>

definition integer_column :: "rat \<Rightarrow> int option" where
  "integer_column q = (if of_int \<lfloor>q\<rfloor> = q then Some \<lfloor>q\<rfloor> else None)"

subsection \<open>Requests, responses, effects\<close>

text \<open>An element of \<^verbatim>\<open>req.body.items\<close>.\<close>

record item =
  product_id :: int
  quantity :: rat

text \<open>The body of \<^verbatim>\<open>POST /api/orders\<close>; \<open>None\<close> is an absent field.\<close>

record create_request =
  customer_name :: "string option"
  customer_email :: "string option"
  items :: "item list option"

text \<open>An element of \<^verbatim>\<open>validatedItems\<close>.\<close>

record validated_item =
  vi_product_id :: int
  vi_product_name :: string
  vi_quantity :: rat
  vi_price :: int

text \<open>
  The error texts of the handlers:
  \<^item> \<open>Required_Fields\<close>: \<^verbatim>\<open>Customer name, email, and items are required\<close>
  \<^item> \<open>Product_Not_Found pid\<close>: \<^verbatim>\<open>Product ${item.product_id} not found\<close>
  \<^item> \<open>Create_Failed\<close>: \<^verbatim>\<open>Failed to create order\<close>
  \<^item> \<open>Invalid_Status\<close>: \<^verbatim>\<open>Status must be one of: pending, processing, ...\<close>
  \<^item> \<open>Order_Not_Found\<close>: \<^verbatim>\<open>Order not found\<close>
\<close>

datatype error_message =
    Required_Fields
  | Product_Not_Found int
  | Create_Failed
  | Invalid_Status
  | Order_Not_Found

text \<open>
  The responses: 201 with the order and its items, 200 with one order and its items, 200
  with a list, 200 with the updated row, and \<^verbatim>\<open>{success: false, error}\<close> under a status.
\<close>

datatype response =
    Order_Created order_row "order_item_row list"
  | Order_Found order_row "order_item_row list"
  | Orders_Listed "(order_row \<times> order_item_row list) list"
  | Status_Updated order_row
  | Rejected nat error_message

fun http_status :: "response \<Rightarrow> nat" where
  "http_status (Order_Created order rows) = 201"
| "http_status (Order_Found order rows) = 200"
| "http_status (Orders_Listed listing) = 200"
| "http_status (Status_Updated order) = 200"
| "http_status (Rejected st msg) = st"

text \<open>What a handler does to the outside, in the order it does it.\<close>

datatype effect =
    Pool_Connect
  | Client_Release
  | Begin
  | Commit
  | Rollback
  | Catalog_Get int
  | Insert_Order
  | Insert_Order_Item
  | Select_Order_Items nat
  | Update_Orders nat

section \<open>The handlers\<close>

subsection \<open>Reads\<close>

text \<open>\<^verbatim>\<open>SELECT * FROM order_items WHERE order_id = $1\<close>\<close>

definition select_order_items :: "nat \<Rightarrow> db \<Rightarrow> order_item_row list" where
  "select_order_items oid d = filter (\<lambda>r. item_order_id r = oid) (order_items d)"

text \<open>\<^verbatim>\<open>app.get('/api/orders/:id')\<close>\<close>

definition get_api_orders_id :: "nat \<Rightarrow> db \<Rightarrow> response" where
  "get_api_orders_id i d =
     (case filter (\<lambda>order. order_id order = i) (orders d) of
        [] \<Rightarrow> Rejected 404 Order_Not_Found
      | order # _ \<Rightarrow> Order_Found order (select_order_items i d))"

text \<open>
  \<^verbatim>\<open>app.get('/api/orders')\<close> with the query parameters \<^verbatim>\<open>status\<close> and
  \<^verbatim>\<open>customer_email\<close>; an absent or empty parameter adds no condition. Rows of equal
  \<^verbatim>\<open>created_at\<close> come latest insertion first here; SQL leaves their order open.
\<close>

definition get_api_orders :: "string option \<Rightarrow> string option \<Rightarrow> db \<Rightarrow> response" where
  "get_api_orders status customer_email' d =
     (let by_status = (\<lambda>order. case status of
              None \<Rightarrow> True | Some s \<Rightarrow> s = [] \<or> order_status order = s);
          by_email = (\<lambda>order. case customer_email' of
              None \<Rightarrow> True | Some e \<Rightarrow> e = [] \<or> order_customer_email order = e);
          rows = rev (sort_key order_created_at
                   (filter (\<lambda>order. by_status order \<and> by_email order) (orders d)))
      in Orders_Listed (map (\<lambda>order. (order, select_order_items (order_id order) d)) rows))"

subsection \<open>Order creation\<close>

text \<open>
  The loop \<^verbatim>\<open>for (let item of items)\<close> of \<^verbatim>\<open>POST /api/orders\<close>, with its
  accumulators \<^verbatim>\<open>total\<close> (here \<open>tot\<close>) and \<^verbatim>\<open>validatedItems\<close>. The
  \<^verbatim>\<open>try\<close> block throws when \<^verbatim>\<open>axios.get\<close> rejects, and when the envelope says \<^verbatim>\<open>success\<close> and carries
  no \<^verbatim>\<open>data\<close> (reading \<^verbatim>\<open>product.price\<close>); the \<^verbatim>\<open>catch\<close> leaves the handler. An
  envelope whose \<^verbatim>\<open>success\<close> is false passes the \<^verbatim>\<open>if\<close> and the loop goes on. The
  call passes no timeout.
\<close>

datatype validation = Lookup_Failed int | Priced rat "validated_item list"

fun validate_items ::
  "(int \<Rightarrow> catalog_behaviour) \<Rightarrow> item list \<Rightarrow> rat \<Rightarrow> validated_item list
     \<Rightarrow> (validation \<times> effect list) option" where
  "validate_items catalog [] tot validatedItems = Some (Priced tot validatedItems, [])"
| "validate_items catalog (it # its) tot validatedItems =
     (case axios_get 0 (catalog (product_id it)) of
        None \<Rightarrow> None
      | Some (Inl e) \<Rightarrow> Some (Lookup_Failed (product_id it), [Catalog_Get (product_id it)])
      | Some (Inr body) \<Rightarrow>
          if success body then
            (case data body of
               None \<Rightarrow> Some (Lookup_Failed (product_id it), [Catalog_Get (product_id it)])
             | Some p \<Rightarrow>
                 map_option (\<lambda>(v, trace). (v, Catalog_Get (product_id it) # trace))
                   (validate_items catalog its
                      (tot + of_int (prod_price p) * quantity it)
                      (validatedItems @
                         [\<lparr>vi_product_id = prod_id p, vi_product_name = prod_name p,
                           vi_quantity = quantity it, vi_price = prod_price p\<rparr>])))
          else
            map_option (\<lambda>(v, trace). (v, Catalog_Get (product_id it) # trace))
              (validate_items catalog its tot validatedItems))"

text \<open>
  \<^verbatim>\<open>INSERT INTO orders (customer_name, customer_email, status, total_amount)
  VALUES ($1, $2, 'pending', $3) RETURNING *\<close>
\<close>

definition insert_order :: "nat \<Rightarrow> string \<Rightarrow> string \<Rightarrow> rat \<Rightarrow> db \<Rightarrow> order_row \<times> db" where
  "insert_order now name email tot d =
     (let order = \<lparr>order_id = Suc (orders_id_seq d), order_customer_name = name,
                    order_customer_email = email, order_status = ''pending'',
                    total_amount = decimal_2 tot, order_created_at = now,
                    order_updated_at = now\<rparr>
      in (order, d\<lparr>orders := orders d @ [order], orders_id_seq := Suc (orders_id_seq d)\<rparr>))"

text \<open>
  \<^verbatim>\<open>INSERT INTO order_items (order_id, product_id, product_name, quantity, price)
  VALUES ($1, $2, $3, $4, $5)\<close>; \<open>None\<close> when the statement is refused.
\<close>

definition insert_order_item :: "nat \<Rightarrow> nat \<Rightarrow> validated_item \<Rightarrow> db \<Rightarrow> db option" where
  "insert_order_item now oid v d =
     (case integer_column (vi_quantity v) of
        None \<Rightarrow> None
      | Some q \<Rightarrow>
          Some (d\<lparr>order_items := order_items d @
                     [\<lparr>item_id = Suc (order_items_id_seq d), item_order_id = oid,
                       item_product_id = vi_product_id v,
                       item_product_name = vi_product_name v, item_quantity = q,
                       item_price = vi_price v, item_created_at = now\<rparr>],
                  order_items_id_seq := Suc (order_items_id_seq d)\<rparr>))"

text \<open>
  The loop \<^verbatim>\<open>for (let item of validatedItems)\<close>: \<open>Inl\<close> holds the database at the
  statement that was refused, \<open>Inr\<close> the database after the last insert.
\<close>

fun insert_order_items ::
  "nat \<Rightarrow> nat \<Rightarrow> validated_item list \<Rightarrow> db \<Rightarrow> (db + db) \<times> effect list" where
  "insert_order_items now oid [] d = (Inr d, [])"
| "insert_order_items now oid (v # vs) d =
     (case insert_order_item now oid v d of
        None \<Rightarrow> (Inl d, [Insert_Order_Item])
      | Some d' \<Rightarrow>
          (case insert_order_items now oid vs d' of
             (r, trace) \<Rightarrow> (r, Insert_Order_Item # trace)))"

text \<open>
  \<^verbatim>\<open>ROLLBACK\<close> of a transaction begun at \<open>d0\<close> and now at \<open>d\<close>: the rows are those
  of \<open>d0\<close>; a sequence does not go back.
\<close>

definition rollback :: "db \<Rightarrow> db \<Rightarrow> db" where
  "rollback d0 d = d\<lparr>orders := orders d0, order_items := order_items d0\<rparr>"

text \<open>
  \<^verbatim>\<open>app.post('/api/orders')\<close> from \<^verbatim>\<open>await client.query('BEGIN')\<close> on: the
  request has passed the check of its fields.
\<close>

definition create_order ::
  "(int \<Rightarrow> catalog_behaviour) \<Rightarrow> nat \<Rightarrow> string \<Rightarrow> string \<Rightarrow> item list \<Rightarrow> db
     \<Rightarrow> (response \<times> db \<times> effect list) option" where
  "create_order catalog now name email its d =
     (case validate_items catalog its 0 [] of
        None \<Rightarrow> None
      | Some (Lookup_Failed pid, gets) \<Rightarrow>
          Some (Rejected 400 (Product_Not_Found pid), rollback d d,
                [Pool_Connect, Begin] @ gets @ [Rollback, Client_Release])
      | Some (Priced tot validatedItems, gets) \<Rightarrow>
          (case insert_order now name email tot d of
             (order, d1) \<Rightarrow>
               (case insert_order_items now (order_id order) validatedItems d1 of
                  (Inl d2, inserts) \<Rightarrow>
                    Some (Rejected 500 Create_Failed, rollback d d2,
                          [Pool_Connect, Begin] @ gets @ Insert_Order # inserts
                            @ [Rollback, Client_Release])
                | (Inr d2, inserts) \<Rightarrow>
                    Some (Order_Created order (select_order_items (order_id order) d2), d2,
                          [Pool_Connect, Begin] @ gets @ Insert_Order # inserts
                            @ [Commit, Select_Order_Items (order_id order),
                               Client_Release]))))"

text \<open>
  \<^verbatim>\<open>app.post('/api/orders')\<close>: the client is taken from the pool, then
  \<^verbatim>\<open>!customer_name || !customer_email || !items || items.length === 0\<close> answers 400;
  an absent field and an empty string or array fail the check.
\<close>

definition post_api_orders ::
  "(int \<Rightarrow> catalog_behaviour) \<Rightarrow> nat \<Rightarrow> create_request \<Rightarrow> db
     \<Rightarrow> (response \<times> db \<times> effect list) option" where
  "post_api_orders catalog now req d =
     (let invalid = Some (Rejected 400 Required_Fields, d, [Pool_Connect, Client_Release])
      in case customer_name req of
           None \<Rightarrow> invalid
         | Some name \<Rightarrow>
             (case customer_email req of
                None \<Rightarrow> invalid
              | Some email \<Rightarrow>
                  (case items req of
                     None \<Rightarrow> invalid
                   | Some its \<Rightarrow>
                       if name = [] \<or> email = [] \<or> its = [] then invalid
                       else create_order catalog now name email its d)))"

subsection \<open>Status update\<close>

definition validStatuses :: "string list" where
  "validStatuses = [''pending'', ''processing'', ''shipped'', ''delivered'', ''cancelled'']"

text \<open>
  \<^verbatim>\<open>UPDATE orders SET status = $1, updated_at = CURRENT_TIMESTAMP WHERE id = $2
  RETURNING *\<close>: the updated rows and the database.
\<close>

definition update_orders :: "nat \<Rightarrow> string \<Rightarrow> nat \<Rightarrow> db \<Rightarrow> order_row list \<times> db" where
  "update_orders now s i d =
     (let set_row = (\<lambda>order. order\<lparr>order_status := s, order_updated_at := now\<rparr>)
      in (map set_row (filter (\<lambda>order. order_id order = i) (orders d)),
          d\<lparr>orders := map (\<lambda>order. if order_id order = i then set_row order else order)
                         (orders d)\<rparr>))"

text \<open>\<^verbatim>\<open>app.put('/api/orders/:id/status')\<close>\<close>

definition put_api_orders_id_status ::
  "nat \<Rightarrow> nat \<Rightarrow> string option \<Rightarrow> db \<Rightarrow> response \<times> db \<times> effect list" where
  "put_api_orders_id_status now i status d =
     (let invalid = (Rejected 400 Invalid_Status, d, [])
      in case status of
           None \<Rightarrow> invalid
         | Some s \<Rightarrow>
             if s = [] \<or> s \<notin> set validStatuses then invalid
             else
               (case update_orders now s i d of
                  ([], d') \<Rightarrow> (Rejected 404 Order_Not_Found, d', [Update_Orders i])
                | (order # rest, d') \<Rightarrow> (Status_Updated order, d', [Update_Orders i])))"

text \<open>
  The same request sent once at each time of a list, one after the other: the responses in
  order, and the database after the last.
\<close>

fun put_status_repeatedly ::
  "nat list \<Rightarrow> nat \<Rightarrow> string option \<Rightarrow> db \<Rightarrow> response list \<times> db" where
  "put_status_repeatedly [] i status d = ([], d)"
| "put_status_repeatedly (now # later) i status d =
     (case put_api_orders_id_status now i status d of
        (r, d', trace) \<Rightarrow>
          (case put_status_repeatedly later i status d' of
             (rs, d'') \<Rightarrow> (r # rs, d'')))"

subsection \<open>Sample data\<close>

text \<open>The rows \<^verbatim>\<open>initDatabase\<close> of the product service inserts into an empty table.\<close>

definition seed_products :: "product list" where
  "seed_products =
     [\<lparr>prod_id = 1, prod_name = ''Laptop Pro 15'', prod_price = 129999\<rparr>,
      \<lparr>prod_id = 2, prod_name = ''Wireless Mouse'', prod_price = 2999\<rparr>,
      \<lparr>prod_id = 3, prod_name = ''USB-C Hub'', prod_price = 4999\<rparr>,
      \<lparr>prod_id = 4, prod_name = ''Mechanical Keyboard'', prod_price = 8999\<rparr>,
      \<lparr>prod_id = 5, prod_name = ''4K Monitor 27'' @ [CHR 0x22], prod_price = 39999\<rparr>]"

definition seed_catalog :: "int \<Rightarrow> catalog_behaviour" where
  "seed_catalog = get_api_products_id seed_products"

text \<open>
  The rows \<^verbatim>\<open>initDatabase\<close> of the order service inserts into empty tables, at time
  \<open>0\<close>.
\<close>

definition seed_db :: db where
  "seed_db =
     \<lparr>orders =
        [\<lparr>order_id = 1, order_customer_name = ''John Doe'',
          order_customer_email = ''john.doe@example.com'', order_status = ''delivered'',
          total_amount = 132998, order_created_at = 0, order_updated_at = 0\<rparr>,
         \<lparr>order_id = 2, order_customer_name = ''Jane Smith'',
          order_customer_email = ''jane.smith@example.com'', order_status = ''shipped'',
          total_amount = 8999, order_created_at = 0, order_updated_at = 0\<rparr>,
         \<lparr>order_id = 3, order_customer_name = ''Bob Johnson'',
          order_customer_email = ''bob.johnson@example.com'', order_status = ''pending'',
          total_amount = 44998, order_created_at = 0, order_updated_at = 0\<rparr>],
      order_items =
        [\<lparr>item_id = 1, item_order_id = 1, item_product_id = 1,
          item_product_name = ''Laptop Pro 15'', item_quantity = 1, item_price = 129999,
          item_created_at = 0\<rparr>,
         \<lparr>item_id = 2, item_order_id = 1, item_product_id = 2,
          item_product_name = ''Wireless Mouse'', item_quantity = 1, item_price = 2999,
          item_created_at = 0\<rparr>,
         \<lparr>item_id = 3, item_order_id = 2, item_product_id = 4,
          item_product_name = ''Mechanical Keyboard'', item_quantity = 1, item_price = 8999,
          item_created_at = 0\<rparr>,
         \<lparr>item_id = 4, item_order_id = 3, item_product_id = 3,
          item_product_name = ''USB-C Hub'', item_quantity = 2, item_price = 4999,
          item_created_at = 0\<rparr>,
         \<lparr>item_id = 5, item_order_id = 3, item_product_id = 5,
          item_product_name = ''4K Monitor 27'' @ [CHR 0x22], item_quantity = 1,
          item_price = 39999, item_created_at = 0\<rparr>],
      orders_id_seq = 3,
      order_items_id_seq = 5\<rparr>"


text \<open>The tables before the first insert.\<close>

definition empty_store :: db where
  "empty_store = \<lparr>orders = [], order_items = [], orders_id_seq = 0, order_items_id_seq = 0\<rparr>"

section \<open>Vocabulary of the properties\<close>

text \<open>
  How one catalog lookup of the creation loop ends, read off \<open>validate_items\<close>: it
  \<^emph>\<open>resolves\<close> to a product (2xx, \<^verbatim>\<open>success\<close>, a product in \<^verbatim>\<open>data\<close>), it is
  \<^emph>\<open>skipped\<close> (2xx and \<^verbatim>\<open>success\<close> false), or the \<^verbatim>\<open>try\<close> block \<^emph>\<open>throws\<close>.
  A silent catalog is none of the three.
\<close>

definition resolved :: "catalog_behaviour \<Rightarrow> product option" where
  "resolved b =
     (case axios_get 0 b of
        Some (Inr body) \<Rightarrow> if success body then data body else None
      | _ \<Rightarrow> None)"

definition skipped :: "catalog_behaviour \<Rightarrow> bool" where
  "skipped b = (case axios_get 0 b of Some (Inr body) \<Rightarrow> \<not> success body | _ \<Rightarrow> False)"

definition lookup_throws :: "catalog_behaviour \<Rightarrow> bool" where
  "lookup_throws b =
     (case axios_get 0 b of
        Some (Inl e) \<Rightarrow> True
      | Some (Inr body) \<Rightarrow> success body \<and> data body = None
      | None \<Rightarrow> False)"

text \<open>A lookup the loop gets past: it resolves or it is skipped.\<close>

definition lookup_passes :: "catalog_behaviour \<Rightarrow> bool" where
  "lookup_passes b = (resolved b \<noteq> None \<or> skipped b)"




text \<open>\<^verbatim>\<open>!x\<close> for a field that is absent, an empty string or an empty array.\<close>

definition missing_or_empty :: "'a list option \<Rightarrow> bool" where
  "missing_or_empty x = (case x of None \<Rightarrow> True | Some xs \<Rightarrow> xs = [])"

text \<open>
  Keys come from the sequences: no order and no item refers to an order id the sequence
  has not handed out yet (\<^verbatim>\<open>SERIAL PRIMARY KEY\<close>, \<^verbatim>\<open>REFERENCES orders(id)\<close>).
\<close>

definition keys_from_sequence :: "db \<Rightarrow> bool" where
  "keys_from_sequence d =
     ((\<forall>order \<in> set (orders d). order_id order \<le> orders_id_seq d) \<and>
      (\<forall>r \<in> set (order_items d). item_order_id r \<le> orders_id_seq d))"

text \<open>Every stored status is one of the five.\<close>

definition statuses_known :: "db \<Rightarrow> bool" where
  "statuses_known d = (\<forall>order \<in> set (orders d). order_status order \<in> set validStatuses)"

text \<open>
  A catalog seen through a lens that forgets why a lookup failed: every behaviour that makes
  the \<^verbatim>\<open>try\<close> block throw becomes a refused connection.
\<close>

definition forget_cause :: "catalog_behaviour \<Rightarrow> catalog_behaviour" where
  "forget_cause b = (if lookup_throws b then Unreachable else b)"

section \<open>Lemmas on the store and the two loops\<close>

lemma rollback_same: "rollback d d = d"
  by (simp add: rollback_def)

lemma decimal_2_of_int: "decimal_2 (of_int n) = n"
proof -
  have a: "\<lfloor>(of_int n :: rat) + 1 / 2\<rfloor> = n" by linarith
  have b: "\<lfloor>- (of_int n :: rat) + 1 / 2\<rfloor> = - n" by linarith
  show ?thesis unfolding decimal_2_def a b by simp
qed






lemma lookup_passes_iff: "lookup_passes b \<longleftrightarrow> \<not> lookup_throws b \<and> b \<noteq> Silent"
  by (cases b)
    (auto simp: lookup_passes_def resolved_def skipped_def lookup_throws_def split: if_splits)





lemma validate_items_throws:
  assumes "\<forall>x \<in> set pre. lookup_passes (catalog (product_id x))"
    and "lookup_throws (catalog (product_id it))"
  shows "validate_items catalog (pre @ it # post) tot acc =
           Some (Lookup_Failed (product_id it),
                 map (\<lambda>x. Catalog_Get (product_id x)) (pre @ [it]))"
  using assms
proof (induction pre arbitrary: tot acc)
  case Nil
  then show ?case
    by (auto simp: lookup_throws_def split: option.splits sum.splits)
next
  case (Cons x pre)
  then have "lookup_passes (catalog (product_id x))" by simp
  then have "\<not> lookup_throws (catalog (product_id x))" "catalog (product_id x) \<noteq> Silent"
    by (simp_all add: lookup_passes_iff)
  with Cons show ?case
    by (cases "catalog (product_id x)")
      (auto simp: lookup_throws_def split: option.splits sum.splits if_splits)
qed

lemma validate_items_silent:
  assumes "\<forall>x \<in> set pre. lookup_passes (catalog (product_id x))"
    and "catalog (product_id it) = Silent"
  shows "validate_items catalog (pre @ it # post) tot acc = None"
  using assms
proof (induction pre arbitrary: tot acc)
  case Nil
  then show ?case by simp
next
  case (Cons x pre)
  then have "lookup_passes (catalog (product_id x))" by simp
  then have "\<not> lookup_throws (catalog (product_id x))" "catalog (product_id x) \<noteq> Silent"
    by (simp_all add: lookup_passes_iff)
  with Cons show ?case
    by (cases "catalog (product_id x)")
      (auto simp: lookup_throws_def split: option.splits sum.splits if_splits)
qed

lemma validate_items_forget_cause:
  "validate_items (\<lambda>pid. forget_cause (catalog pid)) its tot acc =
     validate_items catalog its tot acc"
proof (induction its arbitrary: tot acc)
  case Nil
  then show ?case by simp
next
  case (Cons it its)
  then show ?case
    by (cases "catalog (product_id it)")
      (auto simp: forget_cause_def lookup_throws_def split: option.splits sum.splits)
qed

lemma create_order_forget_cause:
  "create_order (\<lambda>pid. forget_cause (catalog pid)) now name email its d =
     create_order catalog now name email its d"
  by (simp add: create_order_def validate_items_forget_cause)












section \<open>Lemmas on the status update\<close>

lemma update_orders_rows:
  "update_orders now s i d = (rows, d') \<Longrightarrow>
     orders d' = map (\<lambda>order. if order_id order = i
                         then order\<lparr>order_status := s, order_updated_at := now\<rparr>
                         else order) (orders d)
     \<and> order_items d' = order_items d \<and> orders_id_seq d' = orders_id_seq d
     \<and> order_items_id_seq d' = order_items_id_seq d
     \<and> rows = map (\<lambda>order. order\<lparr>order_status := s, order_updated_at := now\<rparr>)
                (filter (\<lambda>order. order_id order = i) (orders d))"
  by (auto simp: update_orders_def Let_def)

lemma put_status_updated:
  assumes "put_api_orders_id_status now i status d = (Status_Updated order, d', tr)"
  shows "\<exists>s rows. status = Some s \<and> s \<in> set validStatuses
           \<and> update_orders now s i d = (order # rows, d') \<and> tr = [Update_Orders i]"
  using assms
  by (auto simp: put_api_orders_id_status_def Let_def
        split: option.splits if_splits list.splits prod.splits)

lemma update_orders_hit:
  assumes "find (\<lambda>order. order_id order = i) (orders d) = Some order"
  shows "\<exists>rows d'. update_orders now s i d =
            (order\<lparr>order_status := s, order_updated_at := now\<rparr> # rows, d')
          \<and> find (\<lambda>order. order_id order = i) (orders d') =
              Some (order\<lparr>order_status := s, order_updated_at := now\<rparr>)"
proof -
  have a: "\<exists>rest. filter (\<lambda>order. order_id order = i) xs = order # rest"
    if "find (\<lambda>order. order_id order = i) xs = Some order" for xs
    using that by (induction xs) (auto split: if_splits)
  have b: "find (\<lambda>order. order_id order = i)
             (map (\<lambda>order. if order_id order = i
                     then order\<lparr>order_status := s, order_updated_at := now\<rparr>
                     else order) xs) =
           Some (order\<lparr>order_status := s, order_updated_at := now\<rparr>)"
    if "find (\<lambda>order. order_id order = i) xs = Some order" for xs
    using that by (induction xs) (auto split: if_splits)
  from a [OF assms] b [OF assms] show ?thesis
    by (auto simp: update_orders_def Let_def)
qed

lemma put_status_hit:
  assumes "find (\<lambda>order. order_id order = i) (orders d) = Some order"
    and "s \<in> set validStatuses"
  shows "\<exists>d'. put_api_orders_id_status now i (Some s) d =
            (Status_Updated (order\<lparr>order_status := s, order_updated_at := now\<rparr>), d',
             [Update_Orders i])
          \<and> find (\<lambda>order. order_id order = i) (orders d') =
              Some (order\<lparr>order_status := s, order_updated_at := now\<rparr>)"
proof -
  have "s \<noteq> []" using assms(2) by (auto simp: validStatuses_def)
  with update_orders_hit [OF assms(1), of now s] assms(2) show ?thesis
    by (auto simp: put_api_orders_id_status_def Let_def)
qed

section \<open>What the handlers keep true of the store\<close>

text \<open>
  The seeded database has its keys from the sequences and known statuses only, and both
  handlers keep it so, whatever the request and however it ends.
\<close>

lemma insert_order_items_shape:
  assumes "insert_order_items now oid vs d = (r, tr)"
  shows "\<exists>d2 rows. (r = Inl d2 \<or> r = Inr d2) \<and> orders d2 = orders d
           \<and> orders_id_seq d2 = orders_id_seq d
           \<and> order_items d2 = order_items d @ rows
           \<and> (\<forall>x \<in> set rows. item_order_id x = oid)"
  using assms
proof (induction vs arbitrary: d r tr)
  case Nil
  then show ?case by auto
next
  case (Cons v vs)
  show ?case
  proof (cases "insert_order_item now oid v d")
    case None
    with Cons.prems show ?thesis by auto
  next
    case (Some d1)
    then obtain row where d1: "orders d1 = orders d" "orders_id_seq d1 = orders_id_seq d"
      "order_items d1 = order_items d @ [row]" "item_order_id row = oid"
      by (auto simp: insert_order_item_def split: option.splits)
    from Cons.prems Some obtain tr' where "insert_order_items now oid vs d1 = (r, tr')"
      by (auto split: prod.splits)
    from Cons.IH [OF this] d1 show ?thesis
      by (metis append.assoc append_Cons append_Nil set_ConsD)
  qed
qed

lemma keys_from_sequence_seed: "keys_from_sequence seed_db"
  by (simp add: keys_from_sequence_def seed_db_def)

lemma statuses_known_seed: "statuses_known seed_db"
  by (simp add: statuses_known_def seed_db_def validStatuses_def)

lemma create_order_store:
  assumes "create_order catalog now name email its d = Some (r, d', tr)"
  shows "(orders d' = orders d \<and> order_items d' = order_items d
            \<and> orders_id_seq d \<le> orders_id_seq d')
       \<or> (\<exists>order rows. orders d' = orders d @ [order] \<and> order_items d' = order_items d @ rows
            \<and> order_id order = Suc (orders_id_seq d) \<and> order_status order = ''pending''
            \<and> (\<forall>x \<in> set rows. item_order_id x = Suc (orders_id_seq d))
            \<and> orders_id_seq d' = Suc (orders_id_seq d))"
proof (cases "validate_items catalog its 0 []")
  case None
  with assms show ?thesis by (simp add: create_order_def)
next
  case (Some a)
  obtain v gets where a: "a = (v, gets)" by (cases a)
  show ?thesis
  proof (cases v)
    case (Lookup_Failed pid)
    with assms Some a show ?thesis by (auto simp: create_order_def rollback_same)
  next
    case (Priced tot vs)
    let ?order = "\<lparr>order_id = Suc (orders_id_seq d), order_customer_name = name,
                    order_customer_email = email, order_status = ''pending'',
                    total_amount = decimal_2 tot, order_created_at = now,
                    order_updated_at = now\<rparr>"
    let ?d1 = "d\<lparr>orders := orders d @ [?order], orders_id_seq := Suc (orders_id_seq d)\<rparr>"
    have h: "insert_order now name email tot d = (?order, ?d1)"
      by (simp add: insert_order_def Let_def)
    obtain res ins where run: "insert_order_items now (Suc (orders_id_seq d)) vs ?d1 = (res, ins)"
      by (cases "insert_order_items now (Suc (orders_id_seq d)) vs ?d1")
    from insert_order_items_shape [OF run] obtain d2 rows where
      d2: "res = Inl d2 \<or> res = Inr d2" "orders d2 = orders ?d1"
        "orders_id_seq d2 = orders_id_seq ?d1" "order_items d2 = order_items ?d1 @ rows"
        "\<forall>x \<in> set rows. item_order_id x = Suc (orders_id_seq d)"
      by blast
    from d2(1) show ?thesis
    proof
      assume "res = Inl d2"
      with assms Some a Priced h run d2 show ?thesis
        by (auto simp: create_order_def rollback_def)
    next
      assume "res = Inr d2"
      with assms Some a Priced h run d2 show ?thesis
        by (auto simp: create_order_def)
    qed
  qed
qed

lemma post_api_orders_store:
  assumes "post_api_orders catalog now req d = Some (r, d', tr)"
  shows "(orders d' = orders d \<and> order_items d' = order_items d
            \<and> orders_id_seq d \<le> orders_id_seq d')
       \<or> (\<exists>order rows. orders d' = orders d @ [order] \<and> order_items d' = order_items d @ rows
            \<and> order_id order = Suc (orders_id_seq d) \<and> order_status order = ''pending''
            \<and> (\<forall>x \<in> set rows. item_order_id x = Suc (orders_id_seq d))
            \<and> orders_id_seq d' = Suc (orders_id_seq d))"
proof (cases "\<exists>name email its. post_api_orders catalog now req d =
                 create_order catalog now name email its d")
  case True
  with assms create_order_store show ?thesis by metis
next
  case False
  then have "post_api_orders catalog now req d =
               Some (Rejected 400 Required_Fields, d, [Pool_Connect, Client_Release])"
    by (auto simp: post_api_orders_def Let_def split: option.splits if_splits)
  with assms show ?thesis by simp
qed

lemma keys_from_sequence_post:
  assumes "post_api_orders catalog now req d = Some (r, d', tr)" and "keys_from_sequence d"
  shows "keys_from_sequence d'"
  using post_api_orders_store [OF assms(1)] assms(2)
  by (fastforce simp: keys_from_sequence_def)

lemma statuses_known_post:
  assumes "post_api_orders catalog now req d = Some (r, d', tr)" and "statuses_known d"
  shows "statuses_known d'"
  using post_api_orders_store [OF assms(1)] assms(2)
  by (auto simp: statuses_known_def validStatuses_def)

lemma put_store:
  assumes "put_api_orders_id_status now i status d = (r, d', tr)"
  shows "d' = d \<or> (\<exists>s \<in> set validStatuses. \<exists>rows. update_orders now s i d = (rows, d'))"
  using assms
  by (auto simp: put_api_orders_id_status_def Let_def
        split: option.splits if_splits list.splits prod.splits)

lemma keys_from_sequence_put:
  assumes "put_api_orders_id_status now i status d = (r, d', tr)" and "keys_from_sequence d"
  shows "keys_from_sequence d'"
  using put_store [OF assms(1)] assms(2)
  by (auto simp: keys_from_sequence_def dest!: update_orders_rows)

lemma statuses_known_put:
  assumes "put_api_orders_id_status now i status d = (r, d', tr)" and "statuses_known d"
  shows "statuses_known d'"
  using put_store [OF assms(1)] assms(2)
  by (auto simp: statuses_known_def dest!: update_orders_rows)

section \<open>Two requests, step by step\<close>

text \<open>
  An order of two units of a product that costs 29.99, on empty tables: the total is 59.98,
  the status \<^verbatim>\<open>pending\<close>, and the one item has quantity 2 and price 29.99. The same
  request against a catalog that answers every lookup with status 200 and
  \<^verbatim>\<open>success: false\<close>: an order with no item and total 0.
\<close>

lemma alice_scenario:
  "post_api_orders seed_catalog 7
     \<lparr>customer_name = Some ''Alice'', customer_email = Some ''alice@example.com'',
      items = Some [\<lparr>product_id = 2, quantity = 2\<rparr>]\<rparr> empty_store =
   Some (Order_Created
           \<lparr>order_id = 1, order_customer_name = ''Alice'',
            order_customer_email = ''alice@example.com'', order_status = ''pending'',
            total_amount = 5998, order_created_at = 7, order_updated_at = 7\<rparr>
           [\<lparr>item_id = 1, item_order_id = 1, item_product_id = 2,
             item_product_name = ''Wireless Mouse'', item_quantity = 2, item_price = 2999,
             item_created_at = 7\<rparr>],
         \<lparr>orders =
            [\<lparr>order_id = 1, order_customer_name = ''Alice'',
              order_customer_email = ''alice@example.com'', order_status = ''pending'',
              total_amount = 5998, order_created_at = 7, order_updated_at = 7\<rparr>],
          order_items =
            [\<lparr>item_id = 1, item_order_id = 1, item_product_id = 2,
              item_product_name = ''Wireless Mouse'', item_quantity = 2, item_price = 2999,
              item_created_at = 7\<rparr>],
          orders_id_seq = 1, order_items_id_seq = 1\<rparr>,
         [Pool_Connect, Begin, Catalog_Get 2, Insert_Order, Insert_Order_Item, Commit,
          Select_Order_Items 1, Client_Release])"
  by (simp add: post_api_orders_def create_order_def seed_catalog_def
        get_api_products_id_def seed_products_def insert_order_def Let_def
        insert_order_item_def integer_column_def decimal_2_of_int [of 5998, simplified]
        select_order_items_def empty_store_def)

lemma all_skipped_scenario:
  "post_api_orders (\<lambda>pid. Http 200 \<lparr>success = False, data = None\<rparr>) 7
     \<lparr>customer_name = Some ''Alice'', customer_email = Some ''alice@example.com'',
      items = Some [\<lparr>product_id = 2, quantity = 2\<rparr>]\<rparr> empty_store =
   Some (Order_Created
           \<lparr>order_id = 1, order_customer_name = ''Alice'',
            order_customer_email = ''alice@example.com'', order_status = ''pending'',
            total_amount = 0, order_created_at = 7, order_updated_at = 7\<rparr> [],
         \<lparr>orders =
            [\<lparr>order_id = 1, order_customer_name = ''Alice'',
              order_customer_email = ''alice@example.com'', order_status = ''pending'',
              total_amount = 0, order_created_at = 7, order_updated_at = 7\<rparr>],
          order_items = [], orders_id_seq = 1, order_items_id_seq = 0\<rparr>,
         [Pool_Connect, Begin, Catalog_Get 2, Insert_Order, Commit, Select_Order_Items 1,
          Client_Release])"
  by (simp add: post_api_orders_def create_order_def insert_order_def Let_def
        decimal_2_of_int [of 0, simplified] select_order_items_def empty_store_def)

section \<open>Properties of order creation\<close>








text \<open>
  \<^bold>\<open>C2.\<close> When the lookup of some item fails (the catalog answers outside 2xx, as it does
  with 404 for an unknown product and with 500 for an error of its own, or the connection
  fails), the whole creation is rejected. Lookups run in the order of the list and stop at
  the first failure, so the request is \<open>pre @ it # post\<close> with \<open>it\<close> the item whose
  lookup fails and \<open>pre\<close> the items the loop got past. The response is 400 with the text
  \<^verbatim>\<open>Product <id> not found\<close> for the product id of \<open>it\<close>; the database is the one
  before the request, no insert and no commit was issued, and every later read by id or
  listing answers as it did before.
\<close>

theorem lookup_failure_rejects_order:
  assumes "customer_name req = Some name" "name \<noteq> []"
    and "customer_email req = Some email" "email \<noteq> []"
    and "items req = Some (pre @ it # post)"
    and "\<forall>x \<in> set pre. lookup_passes (catalog (product_id x))"
    and "lookup_throws (catalog (product_id it))"
  shows "\<exists>d' tr. post_api_orders catalog now req d =
             Some (Rejected 400 (Product_Not_Found (product_id it)), d', tr)
         \<and> d' = d
         \<and> Insert_Order \<notin> set tr \<and> Insert_Order_Item \<notin> set tr \<and> Commit \<notin> set tr
         \<and> (\<forall>i. get_api_orders_id i d' = get_api_orders_id i d)
         \<and> (\<forall>status e. get_api_orders status e d' = get_api_orders status e d)"
proof -
  have "post_api_orders catalog now req d =
          Some (Rejected 400 (Product_Not_Found (product_id it)), d,
                [Pool_Connect, Begin] @ map (\<lambda>x. Catalog_Get (product_id x)) (pre @ [it])
                  @ [Rollback, Client_Release])"
    using assms(1-5) validate_items_throws [OF assms(6,7), of post 0 "[]"]
    by (simp add: post_api_orders_def create_order_def rollback_same)
  then show ?thesis by auto
qed

theorem lookup_failure_rejects_order_witness:
  "\<exists>tr. post_api_orders seed_catalog 7
      \<lparr>customer_name = Some ''Alice'', customer_email = Some ''alice@example.com'',
       items = Some [\<lparr>product_id = 2, quantity = 1\<rparr>, \<lparr>product_id = 9999, quantity = 1\<rparr>]\<rparr>
      seed_db =
    Some (Rejected 400 (Product_Not_Found 9999), seed_db, tr)"
proof -
  have pass: "\<forall>x \<in> set [\<lparr>product_id = 2, quantity = 1\<rparr>].
                lookup_passes (seed_catalog (product_id x))"
    by (simp add: seed_catalog_def get_api_products_id_def seed_products_def
          lookup_passes_def resolved_def)
  have fail: "lookup_throws (seed_catalog (product_id \<lparr>product_id = 9999, quantity = 1\<rparr>))"
    by (simp add: seed_catalog_def get_api_products_id_def seed_products_def
          lookup_throws_def)
  note w = lookup_failure_rejects_order
    [where req = "\<lparr>customer_name = Some ''Alice'',
                    customer_email = Some ''alice@example.com'',
                    items = Some [\<lparr>product_id = 2, quantity = 1\<rparr>,
                                  \<lparr>product_id = 9999, quantity = 1\<rparr>]\<rparr>"
       and name = "''Alice''" and email = "''alice@example.com''"
       and pre = "[\<lparr>product_id = 2, quantity = 1\<rparr>]"
       and it = "\<lparr>product_id = 9999, quantity = 1\<rparr>" and post = "[]"
       and catalog = seed_catalog and now = 7 and d = seed_db, OF _ _ _ _ _ pass fail,
     simplified]
  then show ?thesis by blast
qed

text \<open>
  \<^bold>\<open>C3\<close>, as the code has it. The \<^verbatim>\<open>catch\<close> of the lookup does not look at the
  error: an unknown product (404), an error of the catalog (5xx) and a failed connection
  end in the same response, database and effects. Replacing every failing behaviour of the
  catalog by a refused connection changes nothing a caller of \<^verbatim>\<open>POST /api/orders\<close>
  can observe.
\<close>

theorem failure_cause_not_kept:
  "post_api_orders (\<lambda>pid. forget_cause (catalog pid)) now req d =
     post_api_orders catalog now req d"
  by (simp add: post_api_orders_def create_order_forget_cause Let_def split: option.splits)

theorem failure_cause_not_kept_witness:
  "post_api_orders (\<lambda>pid. Unreachable) 7
      \<lparr>customer_name = Some ''Alice'', customer_email = Some ''alice@example.com'',
       items = Some [\<lparr>product_id = 9999, quantity = 1\<rparr>]\<rparr> seed_db =
   post_api_orders (\<lambda>pid. Http 404 \<lparr>success = False, data = None\<rparr>) 7
      \<lparr>customer_name = Some ''Alice'', customer_email = Some ''alice@example.com'',
       items = Some [\<lparr>product_id = 9999, quantity = 1\<rparr>]\<rparr> seed_db"
  using failure_cause_not_kept
    [of "\<lambda>pid. Http 404 \<lparr>success = False, data = None\<rparr>" 7
        "\<lparr>customer_name = Some ''Alice'', customer_email = Some ''alice@example.com'',
          items = Some [\<lparr>product_id = 9999, quantity = 1\<rparr>]\<rparr>" seed_db]
  by (simp add: forget_cause_def lookup_throws_def)

text \<open>
  \<^bold>\<open>C3\<close>, as the specification states it, fails: for a product the catalog does not
  know (404), for a catalog that answers 500 and for a catalog that cannot be reached,
  the handler gives one and the same result.
\<close>

theorem failure_causes_collapsed:
  "post_api_orders (\<lambda>pid. Http 404 \<lparr>success = False, data = None\<rparr>) 7
      \<lparr>customer_name = Some ''Alice'', customer_email = Some ''alice@example.com'',
       items = Some [\<lparr>product_id = 9999, quantity = 1\<rparr>]\<rparr> seed_db =
     Some (Rejected 400 (Product_Not_Found 9999), seed_db,
           [Pool_Connect, Begin, Catalog_Get 9999, Rollback, Client_Release])
   \<and> post_api_orders (\<lambda>pid. Http 500 \<lparr>success = False, data = None\<rparr>) 7
      \<lparr>customer_name = Some ''Alice'', customer_email = Some ''alice@example.com'',
       items = Some [\<lparr>product_id = 9999, quantity = 1\<rparr>]\<rparr> seed_db =
     Some (Rejected 400 (Product_Not_Found 9999), seed_db,
           [Pool_Connect, Begin, Catalog_Get 9999, Rollback, Client_Release])
   \<and> post_api_orders (\<lambda>pid. Unreachable) 7
      \<lparr>customer_name = Some ''Alice'', customer_email = Some ''alice@example.com'',
       items = Some [\<lparr>product_id = 9999, quantity = 1\<rparr>]\<rparr> seed_db =
     Some (Rejected 400 (Product_Not_Found 9999), seed_db,
           [Pool_Connect, Begin, Catalog_Get 9999, Rollback, Client_Release])"
  by (simp add: post_api_orders_def create_order_def rollback_same)

text \<open>
  \<^bold>\<open>C4.\<close> The lookup is \<^verbatim>\<open>axios.get(url)\<close> with no timeout. Against a catalog that
  accepts the request and never answers, \<^verbatim>\<open>POST /api/orders\<close> never answers either
  (and its transaction stays open): the handler has no result.
\<close>

theorem silent_catalog_no_response:
  "post_api_orders (\<lambda>pid. Silent) 7
     \<lparr>customer_name = Some ''Alice'', customer_email = Some ''alice@example.com'',
      items = Some [\<lparr>product_id = 2, quantity = 2\<rparr>]\<rparr> seed_db = None"
  by (simp add: post_api_orders_def create_order_def)

text \<open>
  The same for every request that passes the check of its fields and reaches a lookup the
  catalog leaves unanswered; and the health probe of the gateway, which passes a timeout
  to the same call, always answers.
\<close>

lemma silent_lookup_blocks:
  assumes "customer_name req = Some name" "name \<noteq> []"
    and "customer_email req = Some email" "email \<noteq> []"
    and "items req = Some (pre @ it # post)"
    and "\<forall>x \<in> set pre. lookup_passes (catalog (product_id x))"
    and "catalog (product_id it) = Silent"
  shows "post_api_orders catalog now req d = None"
  using assms(1-5) validate_items_silent [OF assms(6,7), of post 0 "[]"]
  by (simp add: post_api_orders_def create_order_def)

lemma gateway_health_probe_answers: "gateway_health_probe b \<noteq> None"
  by (cases b) (simp_all add: gateway_health_probe_def)

text \<open>
  \<^bold>\<open>C5.\<close> A request whose customer name, customer email or item list is absent or
  empty is answered 400 with \<^verbatim>\<open>Customer name, email, and items are required\<close>. The
  handler has taken a client from the pool and released it, and nothing else: no
  \<^verbatim>\<open>BEGIN\<close> and no catalog lookup was issued (the result does not depend on the
  catalog, which may even be silent), and the database is unchanged.
\<close>

theorem invalid_request_rejected_first:
  assumes "missing_or_empty (customer_name req) \<or> missing_or_empty (customer_email req)
             \<or> missing_or_empty (items req)"
  shows "post_api_orders catalog now req d =
           Some (Rejected 400 Required_Fields, d, [Pool_Connect, Client_Release])"
  using assms
  by (auto simp: post_api_orders_def missing_or_empty_def Let_def split: option.splits)

theorem invalid_request_rejected_first_witness:
  "post_api_orders (\<lambda>pid. Silent) 7
     \<lparr>customer_name = Some ''Alice'', customer_email = Some ''alice@example.com'',
      items = Some []\<rparr> seed_db =
   Some (Rejected 400 Required_Fields, seed_db, [Pool_Connect, Client_Release])"
  using invalid_request_rejected_first
    [of "\<lparr>customer_name = Some ''Alice'', customer_email = Some ''alice@example.com'',
          items = Some []\<rparr>" "\<lambda>pid. Silent" 7 seed_db]
  by (simp add: missing_or_empty_def)

section \<open>Properties of the status update\<close>

text \<open>
  \<^bold>\<open>C6.\<close> A status update whose \<^verbatim>\<open>status\<close> is absent or is not one of
  \<^verbatim>\<open>pending\<close>, \<^verbatim>\<open>processing\<close>, \<^verbatim>\<open>shipped\<close>, \<^verbatim>\<open>delivered\<close>, \<^verbatim>\<open>cancelled\<close> is
  answered 400; the handler issues no statement, and the database, with the status and
  every other field of every order, is unchanged.
\<close>

theorem unknown_status_rejected:
  assumes "status \<notin> Some ` set validStatuses"
  shows "put_api_orders_id_status now i status d = (Rejected 400 Invalid_Status, d, [])"
  using assms
  by (auto simp: put_api_orders_id_status_def Let_def split: option.splits)

theorem unknown_status_rejected_witness:
  "put_api_orders_id_status 9 2 (Some ''refunded'') seed_db =
     (Rejected 400 Invalid_Status, seed_db, [])"
  using unknown_status_rejected [of "Some ''refunded''" 9 2 seed_db]
  by (simp add: validStatuses_def)

text \<open>
  \<^bold>\<open>C7.\<close> For an order that exists and whose status is one of the five, the update to
  that same status succeeds, and so does each repetition: sent once at each time of a list
  of any length, every response is 200 with the order (its id, its status, and all its
  fields but \<^verbatim>\<open>updated_at\<close> as stored before), and the order is stored with that
  status afterwards.
\<close>

theorem put_status_idempotent:
  assumes "find (\<lambda>order. order_id order = i) (orders d) = Some order"
    and "order_status order \<in> set validStatuses"
  shows "\<exists>rs d' order'. put_status_repeatedly nows i (Some (order_status order)) d = (rs, d')
           \<and> length rs = length nows
           \<and> (\<forall>r \<in> set rs. \<exists>row. r = Status_Updated row \<and> order_id row = i
                  \<and> order_status row = order_status order
                  \<and> row\<lparr>order_updated_at := 0\<rparr> = order\<lparr>order_updated_at := 0\<rparr>)
           \<and> (\<forall>r \<in> set rs. http_status r = 200)
           \<and> find (\<lambda>order. order_id order = i) (orders d') = Some order'
           \<and> order_status order' = order_status order"
  using assms
proof (induction nows arbitrary: d order)
  case Nil
  then show ?case by simp
next
  case (Cons now later)
  let ?s = "order_status order"
  let ?o = "order\<lparr>order_status := ?s, order_updated_at := now\<rparr>"
  from put_status_hit [OF Cons.prems, of now] obtain d1 where
    one: "put_api_orders_id_status now i (Some ?s) d =
            (Status_Updated ?o, d1, [Update_Orders i])"
    and f1: "find (\<lambda>order. order_id order = i) (orders d1) = Some ?o"
    by blast
  have s1: "order_status ?o \<in> set validStatuses" using Cons.prems(2) by simp
  from Cons.IH [OF f1 s1] obtain rs d' order' where
    rest: "put_status_repeatedly later i (Some ?s) d1 = (rs, d')"
    and len: "length rs = length later"
    and ok: "\<forall>r \<in> set rs. \<exists>row. r = Status_Updated row \<and> order_id row = i
                \<and> order_status row = ?s
                \<and> row\<lparr>order_updated_at := 0\<rparr> = ?o\<lparr>order_updated_at := 0\<rparr>"
    and st: "\<forall>r \<in> set rs. http_status r = 200"
    and f: "find (\<lambda>order. order_id order = i) (orders d') = Some order'"
    and s: "order_status order' = ?s"
    by auto
  have idi: "order_id order = i"
    using Cons.prems(1) by (metis (mono_tags, lifting) find_Some_iff)
  have run: "put_status_repeatedly (now # later) i (Some ?s) d = (Status_Updated ?o # rs, d')"
    by (simp add: one rest)
  show ?case
    unfolding run using len ok st f s idi by auto
qed

theorem put_status_idempotent_witness:
  "map http_status (fst (put_status_repeatedly [5, 6, 8] 2 (Some ''shipped'') seed_db)) =
     [200, 200, 200]"
proof -
  have found: "find (\<lambda>order. order_id order = 2) (orders seed_db) = Some (orders seed_db ! 1)"
    by (simp add: seed_db_def)
  have known: "order_status (orders seed_db ! 1) \<in> set validStatuses"
    by (simp add: seed_db_def validStatuses_def)
  have same: "order_status (orders seed_db ! 1) = ''shipped''"
    by (simp add: seed_db_def)
  from put_status_idempotent [OF found known, of "[5, 6, 8]"] obtain rs d' where
    run: "put_status_repeatedly [5, 6, 8] 2 (Some ''shipped'') seed_db = (rs, d')"
    and len: "length rs = 3"
    and ok: "\<forall>r \<in> set rs. http_status r = 200"
    unfolding same by auto
  from ok have "\<forall>y \<in> set (map http_status rs). y = 200" by simp
  then have "replicate (length (map http_status rs)) 200 = map http_status rs"
    by (rule replicate_length_same)
  with len have "map http_status rs = [200, 200, 200]"
    by (simp add: numeral_3_eq_3)
  with run show ?thesis by simp
qed

text \<open>
  \<^bold>\<open>C10.\<close> A status update that succeeds leaves the order items and both sequences as
  they were. The orders are the same rows in the same places: each keeps its id, customer
  name, customer email, total amount and creation time; a row with another id is unchanged
  altogether; a row with the id of the request has the status of the request and
  \<^verbatim>\<open>updated_at\<close> set to the time of the update. The row in the response has the id of
  the request.
\<close>

theorem status_update_frame:
  assumes "put_api_orders_id_status now i status d = (Status_Updated order, d', tr)"
  shows "order_items d' = order_items d \<and> orders_id_seq d' = orders_id_seq d
       \<and> order_items_id_seq d' = order_items_id_seq d
       \<and> length (orders d') = length (orders d)
       \<and> (\<forall>k < length (orders d).
            order_id (orders d' ! k) = order_id (orders d ! k)
          \<and> order_customer_name (orders d' ! k) = order_customer_name (orders d ! k)
          \<and> order_customer_email (orders d' ! k) = order_customer_email (orders d ! k)
          \<and> total_amount (orders d' ! k) = total_amount (orders d ! k)
          \<and> order_created_at (orders d' ! k) = order_created_at (orders d ! k)
          \<and> (order_id (orders d ! k) \<noteq> i \<longrightarrow> orders d' ! k = orders d ! k)
          \<and> (order_id (orders d ! k) = i \<longrightarrow>
                Some (order_status (orders d' ! k)) = status
              \<and> order_updated_at (orders d' ! k) = now))
       \<and> order_id order = i"
proof -
  from put_status_updated [OF assms] obtain s rows where
    s: "status = Some s" and u: "update_orders now s i d = (order # rows, d')"
    by blast
  note r = update_orders_rows [OF u]
  have "order \<in> set (map (\<lambda>order. order\<lparr>order_status := s, order_updated_at := now\<rparr>)
                (filter (\<lambda>order. order_id order = i) (orders d)))"
    using r by (metis list.set_intros(1))
  then have "order_id order = i" by auto
  with r s show ?thesis by simp
qed

theorem status_update_frame_witness:
  "order_items (fst (snd (put_api_orders_id_status 9 3 (Some ''processing'') seed_db))) =
     order_items seed_db
   \<and> orders (fst (snd (put_api_orders_id_status 9 3 (Some ''processing'') seed_db))) ! 0 =
     orders seed_db ! 0"
proof -
  have run: "put_api_orders_id_status 9 3 (Some ''processing'') seed_db =
      (Status_Updated
         ((orders seed_db ! 2)\<lparr>order_status := ''processing'', order_updated_at := 9\<rparr>),
       seed_db\<lparr>orders := [orders seed_db ! 0, orders seed_db ! 1,
                  (orders seed_db ! 2)\<lparr>order_status := ''processing'',
                                       order_updated_at := 9\<rparr>]\<rparr>,
       [Update_Orders 3])"
    by (simp add: put_api_orders_id_status_def validStatuses_def update_orders_def seed_db_def)
  have len: "0 < length (orders seed_db)" by (simp add: seed_db_def)
  have id0: "order_id (orders seed_db ! 0) \<noteq> 3" by (simp add: seed_db_def)
  from status_update_frame [OF run] len id0 show ?thesis
    unfolding run by simp
qed

end
